theory Spec2Isabelle
  imports Main
begin

section \<open>Values, errors, status codes\<close>

text \<open>
  The package \<^verbatim>\<open>grpc\<close> of goxb/pkg has three files: the server factory
  (\<^verbatim>\<open>NewGRPCServer\<close>), the client factory (\<^verbatim>\<open>NewGRPCConn\<close>) and the two
  logging interceptors. Go's \<^verbatim>\<open>interface{}\<close> values (requests, responses, panic
  values, field values) are one small datatype; a Go \<^verbatim>\<open>error\<close> is an
  \<open>error option\<close>, \<open>None\<close> being \<^verbatim>\<open>nil\<close>.
\<close>

datatype code =
    OK | Canceled | Unknown | InvalidArgument | DeadlineExceeded | NotFound
  | AlreadyExists | PermissionDenied | ResourceExhausted | FailedPrecondition
  | Aborted | OutOfRange | Unimplemented | Internal | Unavailable | DataLoss
  | Unauthenticated

datatype error =
    StatusError code string
  | PathError string
  | ParseError string
  | Errorf string "error option"

datatype any = NilV | StrV string | IntV int | ErrV error

text \<open>
  Formatting and classification functions of the libraries the package calls
  (\<^verbatim>\<open>status.Code\<close>, \<^verbatim>\<open>codes.Code.String\<close>, \<^verbatim>\<open>time.Duration.String\<close>,
  \<^verbatim>\<open>error.Error\<close>, the PEM certificate parser behind
  \<^verbatim>\<open>CertPool.AppendCertsFromPEM\<close>, \<^verbatim>\<open>tls.X509KeyPair\<close>, the backoff function
  \<^verbatim>\<open>grpc_retry.BackoffLinear\<close>, which maps a duration and the number of an attempt to
  the wait after that attempt, and the transport's classification of a failure as
  transient). They are parameters of the model: every theorem below holds for any
  choice of them.
\<close>

record lib =
  status_Code :: "error option \<Rightarrow> code"
  code_String :: "code \<Rightarrow> string"
  duration_String :: "int \<Rightarrow> string"
  error_Error :: "error \<Rightarrow> string"
  parse_PEM_certs :: "string \<Rightarrow> string list"
  X509KeyPair :: "string \<Rightarrow> string \<Rightarrow> error + string"
  BackoffLinear :: "int \<Rightarrow> nat \<Rightarrow> int"
  is_transient :: "error \<Rightarrow> bool"

section \<open>The world: clock, logger backend, file system\<close>

datatype level =
  DebugLevel | InfoLevel | WarnLevel | ErrorLevel | DPanicLevel | PanicLevel | FatalLevel

datatype field = Field string any

record entry =
  level :: level
  message :: string
  entry_fields :: "field list"

text \<open>
  \<open>now\<close> is what \<^verbatim>\<open>time.Now()\<close> reads (nanoseconds), \<open>log\<close> the write operations
  invoked on the logging backend, in order, \<open>reads\<close> the paths handed to the file
  system for reading, in order, and \<open>files\<close> the file system's contents.
\<close>

record world =
  now :: int
  log :: "entry list"
  reads :: "string list"
  files :: "string \<Rightarrow> string option"

text \<open>
  A \<^verbatim>\<open>*zap.Logger\<close> is the list of fields attached to it by \<^verbatim>\<open>With\<close>. The world
  records every write invoked on a logger; what the backend does with a record
  (\<^verbatim>\<open>zap.NewNop()\<close> discards it) is outside the model.
\<close>

type_synonym logger = "field list"

definition zap_NewNop :: logger where
  "zap_NewNop = []"

definition logger_With :: "logger \<Rightarrow> field list \<Rightarrow> logger" where
  "logger_With l fs = l @ fs"

definition logger_write :: "level \<Rightarrow> logger \<Rightarrow> string \<Rightarrow> world \<Rightarrow> world" where
  "logger_write lv l msg w =
     w\<lparr>log := log w @ [\<lparr>level = lv, message = msg, entry_fields = l\<rparr>]\<rparr>"

definition logger_Info :: "logger \<Rightarrow> string \<Rightarrow> world \<Rightarrow> world" where
  "logger_Info = logger_write InfoLevel"

definition logger_Error :: "logger \<Rightarrow> string \<Rightarrow> world \<Rightarrow> world" where
  "logger_Error = logger_write ErrorLevel"

section \<open>Calls, handlers, server interceptors\<close>

record ctx =
  ctx_values :: "(string \<times> any) list"
  ctx_timeout :: "int option"

text \<open>A call either returns or panics; a panic carries the value given to \<^verbatim>\<open>panic\<close>.\<close>

datatype 'a outcome = Returned 'a | Panicked any

record UnaryServerInfo =
  Server :: any
  FullMethod :: string

record StreamServerInfo =
  FullMethod :: string
  IsClientStream :: bool
  IsServerStream :: bool

record ServerStream =
  Context :: ctx

type_synonym UnaryHandler =
  "ctx \<Rightarrow> any \<Rightarrow> world \<Rightarrow> (any \<times> error option) outcome \<times> world"

type_synonym grpc_UnaryServerInterceptor =
  "ctx \<Rightarrow> any \<Rightarrow> UnaryServerInfo \<Rightarrow> UnaryHandler \<Rightarrow> world
     \<Rightarrow> (any \<times> error option) outcome \<times> world"

type_synonym StreamHandler =
  "any \<Rightarrow> ServerStream \<Rightarrow> world \<Rightarrow> (error option) outcome \<times> world"

type_synonym grpc_StreamServerInterceptor =
  "any \<Rightarrow> ServerStream \<Rightarrow> StreamServerInfo \<Rightarrow> StreamHandler \<Rightarrow> world
     \<Rightarrow> (error option) outcome \<times> world"

section \<open>The logging interceptors\<close>

type_synonym LoggerFeild = "ctx \<Rightarrow> field"

text \<open>\<^verbatim>\<open>applyLoggerFeilds\<close>: the loop appends \<^verbatim>\<open>ls(ctx)\<close> for each extractor in order.\<close>

definition applyLoggerFeilds :: "ctx \<Rightarrow> LoggerFeild list \<Rightarrow> field list" where
  "applyLoggerFeilds c lfs = foldl (\<lambda>fields ls. fields @ [ls c]) [] lfs"

text \<open>\<^verbatim>\<open>%-12s\<close>: left-justified in a width of twelve, padded with spaces.\<close>

definition pad12 :: "string \<Rightarrow> string" where
  "pad12 s = s @ replicate (12 - length s) (CHR '' '')"

text \<open>
  The message both interceptors build with \<^verbatim>\<open>fmt.Sprintf\<close>: latency, method and
  code, and the error detail only when \<^verbatim>\<open>err != nil\<close>.
\<close>

definition log_msg :: "lib \<Rightarrow> int \<Rightarrow> int \<Rightarrow> string \<Rightarrow> code \<Rightarrow> error option \<Rightarrow> string" where
  "log_msg L startTime endTime fullMethod c err =
     (case err of
        Some e \<Rightarrow>
          ''latency='' @ pad12 (duration_String L (endTime - startTime)) @ '' '' @ fullMethod
            @ '' '' @ code_String L c @ '', err='' @ error_Error L e
      | None \<Rightarrow>
          ''latency='' @ pad12 (duration_String L (endTime - startTime)) @ '' '' @ fullMethod
            @ '' '' @ code_String L c)"

text \<open>
  \<^verbatim>\<open>UnaryServerInterceptor(logger, opts...)\<close>. A panic of the handler is not
  recovered here: it unwinds through the interceptor, and nothing is logged.
\<close>

definition UnaryServerInterceptor ::
  "lib \<Rightarrow> logger \<Rightarrow> LoggerFeild list \<Rightarrow> grpc_UnaryServerInterceptor" where
  "UnaryServerInterceptor L logger opts = (\<lambda>c req info handler w.
     let startTime = now w in
     case handler c req w of
       (Panicked v, w1) \<Rightarrow> (Panicked v, w1)
     | (Returned (resp, err), w1) \<Rightarrow>
         let endTime = now w1;
             cd = status_Code L err;
             fields = applyLoggerFeilds c opts;
             msg = log_msg L startTime endTime (UnaryServerInfo.FullMethod info) cd err;
             w2 = (if cd = Internal \<or> cd = Unavailable
                   then logger_Error (logger_With logger fields) msg w1
                   else logger_Info (logger_With logger fields) msg w1)
         in (Returned (resp, err), w2))"

text \<open>\<^verbatim>\<open>StreamServerInterceptor(logger, opts...)\<close>; the context is the stream's.\<close>

definition StreamServerInterceptor ::
  "lib \<Rightarrow> logger \<Rightarrow> LoggerFeild list \<Rightarrow> grpc_StreamServerInterceptor" where
  "StreamServerInterceptor L logger opts = (\<lambda>srv stream info handler w.
     let c = Context stream;
         startTime = now w in
     case handler srv stream w of
       (Panicked v, w1) \<Rightarrow> (Panicked v, w1)
     | (Returned err, w1) \<Rightarrow>
         let endTime = now w1;
             cd = status_Code L err;
             fields = applyLoggerFeilds c opts;
             msg = log_msg L startTime endTime (StreamServerInfo.FullMethod info) cd err;
             w2 = (if cd = Internal \<or> cd = Unavailable
                   then logger_Error (logger_With logger fields) msg w1
                   else logger_Info (logger_With logger fields) msg w1)
         in (Returned err, w2))"

section \<open>Files and TLS material\<close>

text \<open>
  \<^verbatim>\<open>ioutil.ReadFile\<close>: the path is handed to the file system, which has the file or
  not. Opening the empty path fails on every platform.
\<close>

definition ioutil_ReadFile :: "string \<Rightarrow> world \<Rightarrow> (error + string) \<times> world" where
  "ioutil_ReadFile p w =
     ((if p = [] then Inl (PathError p)
       else case files w p of None \<Rightarrow> Inl (PathError p) | Some b \<Rightarrow> Inr b),
      w\<lparr>reads := reads w @ [p]\<rparr>)"

datatype ClientAuthType =
    NoClientCert | RequestClientCert | RequireAnyClientCert | VerifyClientCertIfGiven
  | RequireAndVerifyClientCert

text \<open>
  \<^verbatim>\<open>tls.Config\<close>, the fields the package sets; a certificate pool is the list of the
  certificates added to it, \<open>None\<close> a nil pool. \<^verbatim>\<open>credentials.NewTLS\<close> wraps the
  configuration and is the identity here.
\<close>

record tls_Config =
  Certificates :: "string list"
  ClientAuth :: ClientAuthType
  ClientCAs :: "string list option"
  RootCAs :: "string list option"
  ServerName :: string

definition tls_Config_zero :: tls_Config where
  "tls_Config_zero =
     \<lparr>Certificates = [], ClientAuth = NoClientCert, ClientCAs = None, RootCAs = None,
      tls_Config.ServerName = []\<rparr>"

definition credentials_NewTLS :: "tls_Config \<Rightarrow> tls_Config" where
  "credentials_NewTLS c = c"

text \<open>\<^verbatim>\<open>cPool.AppendCertsFromPEM(pem)\<close>: the new pool, and whether any certificate parsed.\<close>

definition AppendCertsFromPEM :: "lib \<Rightarrow> string list \<Rightarrow> string \<Rightarrow> string list \<times> bool" where
  "AppendCertsFromPEM L cPool pem = (cPool @ parse_PEM_certs L pem, parse_PEM_certs L pem \<noteq> [])"

text \<open>\<^verbatim>\<open>tls.LoadX509KeyPair\<close> reads the certificate file, then the key file, then parses.\<close>

definition tls_LoadX509KeyPair ::
  "lib \<Rightarrow> string \<Rightarrow> string \<Rightarrow> world \<Rightarrow> (error + string) \<times> world" where
  "tls_LoadX509KeyPair L certFile keyFile w =
     (case ioutil_ReadFile certFile w of
        (Inl e, w1) \<Rightarrow> (Inl e, w1)
      | (Inr certPEM, w1) \<Rightarrow>
          (case ioutil_ReadFile keyFile w1 of
             (Inl e, w2) \<Rightarrow> (Inl e, w2)
           | (Inr keyPEM, w2) \<Rightarrow> (X509KeyPair L certPEM keyPEM, w2)))"

definition credentials_NewServerTLSFromFile ::
  "lib \<Rightarrow> string \<Rightarrow> string \<Rightarrow> world \<Rightarrow> (error + tls_Config) \<times> world" where
  "credentials_NewServerTLSFromFile L certFile keyFile w =
     (case tls_LoadX509KeyPair L certFile keyFile w of
        (Inl e, w1) \<Rightarrow> (Inl e, w1)
      | (Inr cert, w1) \<Rightarrow> (Inr (credentials_NewTLS (tls_Config_zero\<lparr>Certificates := [cert]\<rparr>)), w1))"

section \<open>The server factory\<close>

record ServerCredentialsConfig =
  CAPath :: string
  CertPath :: string
  KeyPath :: string

record serverOptions =
  logger :: logger
  creds :: ServerCredentialsConfig
  streamInterceptors :: "grpc_StreamServerInterceptor list"
  unaryInterceptors :: "grpc_UnaryServerInterceptor list"

type_synonym ServerOption = "serverOptions \<Rightarrow> serverOptions"

definition ServerLogger :: "logger \<Rightarrow> ServerOption" where
  "ServerLogger l = (\<lambda>so. so\<lparr>serverOptions.logger := l\<rparr>)"

definition ServerCredentials :: "ServerCredentialsConfig \<Rightarrow> ServerOption" where
  "ServerCredentials cr = (\<lambda>so. so\<lparr>serverOptions.creds := cr\<rparr>)"

definition UnaryServerInterceptors :: "grpc_UnaryServerInterceptor list \<Rightarrow> ServerOption" where
  "UnaryServerInterceptors interceptors = (\<lambda>so. so\<lparr>serverOptions.unaryInterceptors := interceptors\<rparr>)"

definition StreamServerInterceptors :: "grpc_StreamServerInterceptor list \<Rightarrow> ServerOption" where
  "StreamServerInterceptors interceptors = (\<lambda>so. so\<lparr>serverOptions.streamInterceptors := interceptors\<rparr>)"

text \<open>
  \<^verbatim>\<open>applyServerOptions\<close>: the zero value with a no-op logger, then each option in
  order. The options value the source calls \<^verbatim>\<open>o\<close> is \<open>so\<close> for the server and \<open>co\<close>
  for the client.
\<close>

definition applyServerOptions :: "ServerOption list \<Rightarrow> serverOptions" where
  "applyServerOptions opts =
     foldl (\<lambda>so opt. opt so)
       \<lparr>serverOptions.logger = zap_NewNop,
        serverOptions.creds =
          \<lparr>ServerCredentialsConfig.CAPath = [], ServerCredentialsConfig.CertPath = [],
           ServerCredentialsConfig.KeyPath = []\<rparr>,
        serverOptions.streamInterceptors = [], serverOptions.unaryInterceptors = []\<rparr>
       opts"

text \<open>The options of the transport's server, and the server as the options it was built from.\<close>

datatype grpc_ServerOption =
    Creds tls_Config
  | UnaryInterceptor grpc_UnaryServerInterceptor
  | StreamInterceptor grpc_StreamServerInterceptor

datatype grpc_Server = grpc_NewServer "grpc_ServerOption list"

fun server_opts :: "grpc_Server \<Rightarrow> grpc_ServerOption list" where
  "server_opts (grpc_NewServer opts) = opts"

fun creds_of :: "grpc_ServerOption list \<Rightarrow> tls_Config list" where
  "creds_of [] = []"
| "creds_of (Creds t # os) = t # creds_of os"
| "creds_of (_ # os) = creds_of os"

fun unary_of :: "grpc_ServerOption list \<Rightarrow> grpc_UnaryServerInterceptor list" where
  "unary_of [] = []"
| "unary_of (UnaryInterceptor i # os) = i # unary_of os"
| "unary_of (_ # os) = unary_of os"

fun stream_of :: "grpc_ServerOption list \<Rightarrow> grpc_StreamServerInterceptor list" where
  "stream_of [] = []"
| "stream_of (StreamInterceptor i # os) = i # stream_of os"
| "stream_of (_ # os) = stream_of os"

text \<open>
  Transport security of the server (the first half of \<^verbatim>\<open>NewGRPCServer\<close>): the
  credential options, or the wrapped error of the stage that failed. The format strings
  are the source's; where \<^verbatim>\<open>AppendCertsFromPEM\<close> fails the wrapped \<^verbatim>\<open>err\<close> is nil.
\<close>

definition serverCreds ::
  "lib \<Rightarrow> serverOptions \<Rightarrow> world \<Rightarrow> (error + grpc_ServerOption list) \<times> world" where
  "serverCreds L so w =
     (let opts = [];
          creds = serverOptions.creds so in
      if ServerCredentialsConfig.CAPath creds = [] \<and> ServerCredentialsConfig.CertPath creds = []
           \<and> ServerCredentialsConfig.KeyPath creds = []
      then (Inr opts, logger_Info (serverOptions.logger so) ''No TLS keys, insecure mode'' w)
      else if ServerCredentialsConfig.CAPath creds = []
      then
        (let w1 = logger_Info (serverOptions.logger so) ''enable sample credentials in grpc server'' w in
         case credentials_NewServerTLSFromFile L (ServerCredentialsConfig.CertPath creds)
                (ServerCredentialsConfig.KeyPath creds) w1 of
           (Inl err, w2) \<Rightarrow> (Inl (Errorf ''bad tls credentials: %w'' (Some err)), w2)
         | (Inr tc, w2) \<Rightarrow> (Inr (opts @ [Creds tc]), w2))
      else
        (let w1 = logger_Info (serverOptions.logger so) ''enable mutual credentials in grpc server'' w;
             cPool = [] in
         case (if ServerCredentialsConfig.CAPath creds \<noteq> []
               then (case ioutil_ReadFile (ServerCredentialsConfig.CAPath creds) w1 of
                       (Inl err, w2) \<Rightarrow> (Inl (Errorf ''failed to read ac cert: %w'' (Some err)), w2)
                     | (Inr caCert, w2) \<Rightarrow>
                         (case AppendCertsFromPEM L cPool caCert of
                            (cPool', ok) \<Rightarrow>
                              if ok \<noteq> True then (Inl (Errorf ''bad ac certificate: %w'' None), w2)
                              else (Inr cPool', w2)))
               else (Inr cPool, w1)) of
           (Inl e, w2) \<Rightarrow> (Inl e, w2)
         | (Inr cPool', w2) \<Rightarrow>
             (case tls_LoadX509KeyPair L (ServerCredentialsConfig.CertPath creds)
                     (ServerCredentialsConfig.KeyPath creds) w2 of
                (Inl err, w3) \<Rightarrow> (Inl (Errorf ''bad certificate of gRPC server, %w'' (Some err)), w3)
              | (Inr certPair, w3) \<Rightarrow>
                  (let tlsConfig =
                         tls_Config_zero\<lparr>Certificates := [certPair],
                                         ClientAuth := RequireAndVerifyClientCert,
                                         ClientCAs := Some cPool'\<rparr>
                   in (Inr (opts @ [Creds (credentials_NewTLS tlsConfig)]), w3)))))"

text \<open>
  \<^verbatim>\<open>recoveryFn\<close>: logs the recovered value at error level under the key \<^verbatim>\<open>err\<close>
  and returns a nil error.
\<close>

definition recoveryFn :: "serverOptions \<Rightarrow> any \<Rightarrow> world \<Rightarrow> error option \<times> world" where
  "recoveryFn so err w =
     (None, logger_Error (logger_With (serverOptions.logger so) [Field ''err'' err])
              ''recover unkown execption'' w)"

text \<open>
  Modelled from the spec: the recovery interceptors of the middleware library
  (\<^verbatim>\<open>grpc_recovery.UnaryServerInterceptor\<close>, \<^verbatim>\<open>grpc_recovery.StreamServerInterceptor\<close>
  with \<^verbatim>\<open>WithRecoveryHandler\<close>), which are not among the repository's files. Section
  4.3: the interceptor wraps the handler's execution for one call; when the handler
  raises a fault it captures the fault value, hands it to the recovery handler and makes
  the handler's answer the result of the call; the response of a recovered unary call is
  nil. A handler that returns is not touched.
\<close>

definition grpc_recovery_UnaryServerInterceptor ::
  "(any \<Rightarrow> world \<Rightarrow> error option \<times> world) \<Rightarrow> grpc_UnaryServerInterceptor" where
  "grpc_recovery_UnaryServerInterceptor rec = (\<lambda>c req info handler w.
     case handler c req w of
       (Panicked v, w1) \<Rightarrow> (case rec v w1 of (err, w2) \<Rightarrow> (Returned (NilV, err), w2))
     | (Returned r, w1) \<Rightarrow> (Returned r, w1))"

definition grpc_recovery_StreamServerInterceptor ::
  "(any \<Rightarrow> world \<Rightarrow> error option \<times> world) \<Rightarrow> grpc_StreamServerInterceptor" where
  "grpc_recovery_StreamServerInterceptor rec = (\<lambda>srv stream info handler w.
     case handler srv stream w of
       (Panicked v, w1) \<Rightarrow> (case rec v w1 of (err, w2) \<Rightarrow> (Returned err, w2))
     | (Returned r, w1) \<Rightarrow> (Returned r, w1))"

text \<open>
  Modelled from the spec: the chaining functions of the middleware library
  (\<^verbatim>\<open>grpc_middleware.ChainUnaryServer\<close>, \<^verbatim>\<open>grpc_middleware.ChainStreamServer\<close>), which
  are not among the repository's files. Section 4.5: one interceptor that invokes the
  given ones in sequence, the first being the outermost (nested middleware); each
  interceptor receives the rest of the chain as its handler.
\<close>

fun ChainUnaryServer :: "grpc_UnaryServerInterceptor list \<Rightarrow> grpc_UnaryServerInterceptor" where
  "ChainUnaryServer [] = (\<lambda>c req info handler. handler c req)"
| "ChainUnaryServer (i # rest) =
     (\<lambda>c req info handler. i c req info (\<lambda>c' req'. ChainUnaryServer rest c' req' info handler))"

fun ChainStreamServer :: "grpc_StreamServerInterceptor list \<Rightarrow> grpc_StreamServerInterceptor" where
  "ChainStreamServer [] = (\<lambda>srv stream info handler. handler srv stream)"
| "ChainStreamServer (i # rest) =
     (\<lambda>srv stream info handler.
        i srv stream info (\<lambda>srv' stream'. ChainStreamServer rest srv' stream' info handler))"

text \<open>
  The interceptor lists \<^verbatim>\<open>NewGRPCServer\<close> builds: the recovery interceptor, then the
  caller's, appended.
\<close>

definition serverUnaryInterceptors :: "serverOptions \<Rightarrow> grpc_UnaryServerInterceptor list" where
  "serverUnaryInterceptors so =
     [grpc_recovery_UnaryServerInterceptor (recoveryFn so)] @ serverOptions.unaryInterceptors so"

definition serverStreamInterceptors :: "serverOptions \<Rightarrow> grpc_StreamServerInterceptor list" where
  "serverStreamInterceptors so =
     [grpc_recovery_StreamServerInterceptor (recoveryFn so)] @ serverOptions.streamInterceptors so"

definition NewGRPCServer ::
  "lib \<Rightarrow> ServerOption list \<Rightarrow> world \<Rightarrow> (error + grpc_Server) \<times> world" where
  "NewGRPCServer L options w =
     (let so = applyServerOptions options in
      case serverCreds L so w of
        (Inl e, w1) \<Rightarrow> (Inl e, w1)
      | (Inr opts, w1) \<Rightarrow>
          (Inr (grpc_NewServer
                  (opts @ [UnaryInterceptor (ChainUnaryServer (serverUnaryInterceptors so)),
                           StreamInterceptor (ChainStreamServer (serverStreamInterceptors so))])),
           w1))"

text \<open>
  The spec's names (section 7) for the credential errors, read off the wrapping the
  server factory gives each failing stage.
\<close>

datatype CredentialErrorKind = CAUnreadable | CAInvalid | KeyPairInvalid

definition credentialErrorKind :: "error \<Rightarrow> CredentialErrorKind option" where
  "credentialErrorKind e =
     (case e of
        Errorf m inner \<Rightarrow>
          if m = ''failed to read ac cert: %w'' then Some CAUnreadable
          else if m = ''bad ac certificate: %w'' then Some CAInvalid
          else if m = ''bad certificate of gRPC server, %w'' \<or> m = ''bad tls credentials: %w''
          then Some KeyPairInvalid
          else None
      | _ \<Rightarrow> None)"

section \<open>Client calls, client interceptors\<close>

text \<open>
  A client interceptor receives the context, the call and the invoker (for a stream:
  the streamer) that continues the call, and returns the reply (for a stream: the
  client stream) and the error. The context is separate from the rest of the call
  because the retry layer derives a context for each attempt.
\<close>

record UnaryCall =
  rpc_method :: string
  req :: any

record StreamDesc =
  StreamName :: string
  ServerStreams :: bool
  ClientStreams :: bool

record StreamCall =
  desc :: StreamDesc
  rpc_method :: string

record ClientStream =
  cs_Context :: ctx

type_synonym ('q, 'r) invoker = "ctx \<Rightarrow> 'q \<Rightarrow> world \<Rightarrow> ('r \<times> error option) \<times> world"

type_synonym ('q, 'r) client_interceptor =
  "ctx \<Rightarrow> 'q \<Rightarrow> ('q, 'r) invoker \<Rightarrow> world \<Rightarrow> ('r \<times> error option) \<times> world"

type_synonym grpc_UnaryClientInterceptor = "(UnaryCall, any) client_interceptor"

type_synonym grpc_StreamClientInterceptor = "(StreamCall, ClientStream option) client_interceptor"

text \<open>
  Modelled from the spec: the client chaining functions of the middleware library
  (\<^verbatim>\<open>grpc_middleware.ChainUnaryClient\<close>, \<^verbatim>\<open>grpc_middleware.ChainStreamClient\<close>), which
  are not among the repository's files. Section 4.5: the first interceptor of the
  sequence is the outermost; each receives the rest of the chain as its invoker.
\<close>

fun ChainClient :: "('q, 'r) client_interceptor list \<Rightarrow> ('q, 'r) client_interceptor" where
  "ChainClient [] = (\<lambda>c q invoker. invoker c q)"
| "ChainClient (i # rest) = (\<lambda>c q invoker. i c q (\<lambda>c' q'. ChainClient rest c' q' invoker))"

definition ChainUnaryClient :: "grpc_UnaryClientInterceptor list \<Rightarrow> grpc_UnaryClientInterceptor" where
  "ChainUnaryClient = ChainClient"

definition ChainStreamClient :: "grpc_StreamClientInterceptor list \<Rightarrow> grpc_StreamClientInterceptor" where
  "ChainStreamClient = ChainClient"

section \<open>The retry policy\<close>

text \<open>
  The three call options \<^verbatim>\<open>NewGRPCConn\<close> hands to the retry interceptors:
  \<^verbatim>\<open>WithBackoff\<close>, \<^verbatim>\<open>WithMax\<close>, \<^verbatim>\<open>WithPerRetryTimeout\<close>. Durations are
  nanoseconds, as \<^verbatim>\<open>time.Duration\<close> counts them.
\<close>

record retry_options =
  WithBackoff :: "nat \<Rightarrow> int"
  WithMax :: nat
  WithPerRetryTimeout :: int

definition time_Second :: int where
  "time_Second = 1000000000"

text \<open>
  Modelled from the spec: the retry interceptors of the middleware library
  (\<^verbatim>\<open>grpc_retry.UnaryClientInterceptor\<close>, \<^verbatim>\<open>grpc_retry.StreamClientInterceptor\<close>),
  which are not among the repository's files. Section 4.2: on a transient failure of an
  attempt the interceptor waits what the configured backoff function gives for the
  attempt's index before the next attempt, up to \<^verbatim>\<open>max_attempts\<close> attempts in total;
  each attempt is bounded by the per-attempt timeout (section 3: a timeout has effect
  only when positive); when the attempts are exhausted the last failure is returned
  unchanged; \<^verbatim>\<open>max_attempts = 0\<close> disables retry (exactly one attempt); what is
  transient is the transport's classification.

  \<open>retry_from\<close> is the loop from attempt number \<open>i\<close> (the first attempt is number 1) with
  \<open>k\<close> further attempts allowed after it. Beside the result it returns the loop's trace:
  the result of every attempt and every wait, in order.
\<close>

datatype 'r retry_event = Attempted "'r \<times> error option" | Waited int

definition sleep :: "int \<Rightarrow> world \<Rightarrow> world" where
  "sleep d w = w\<lparr>now := now w + d\<rparr>"

definition perCallContext :: "retry_options \<Rightarrow> ctx \<Rightarrow> ctx" where
  "perCallContext ro c =
     (if 0 < WithPerRetryTimeout ro then c\<lparr>ctx_timeout := Some (WithPerRetryTimeout ro)\<rparr> else c)"

fun retry_from ::
  "lib \<Rightarrow> retry_options \<Rightarrow> ('q, 'r) invoker \<Rightarrow> ctx \<Rightarrow> 'q \<Rightarrow> nat \<Rightarrow> nat \<Rightarrow> world
     \<Rightarrow> (('r \<times> error option) \<times> world) \<times> 'r retry_event list" where
  "retry_from L ro invoker c q i 0 w =
     (case invoker (perCallContext ro c) q w of
        (res, w1) \<Rightarrow> ((res, w1), [Attempted res]))"
| "retry_from L ro invoker c q i (Suc k) w =
     (case invoker (perCallContext ro c) q w of
        (res, w1) \<Rightarrow>
          (case snd res of
             None \<Rightarrow> ((res, w1), [Attempted res])
           | Some e \<Rightarrow>
               if is_transient L e
               then (case retry_from L ro invoker c q (Suc i) k (sleep (WithBackoff ro i) w1) of
                       (out, evs) \<Rightarrow> (out, Attempted res # Waited (WithBackoff ro i) # evs))
               else ((res, w1), [Attempted res])))"

definition total_attempts :: "retry_options \<Rightarrow> nat" where
  "total_attempts ro = (if WithMax ro = 0 then 1 else WithMax ro)"

definition retry_run ::
  "lib \<Rightarrow> retry_options \<Rightarrow> ('q, 'r) invoker \<Rightarrow> ctx \<Rightarrow> 'q \<Rightarrow> world
     \<Rightarrow> (('r \<times> error option) \<times> world) \<times> 'r retry_event list" where
  "retry_run L ro invoker c q w = retry_from L ro invoker c q 1 (total_attempts ro - 1) w"

definition grpc_retry_ClientInterceptor :: "lib \<Rightarrow> retry_options \<Rightarrow> ('q, 'r) client_interceptor" where
  "grpc_retry_ClientInterceptor L ro = (\<lambda>c q invoker w. fst (retry_run L ro invoker c q w))"

definition grpc_retry_UnaryClientInterceptor :: "lib \<Rightarrow> retry_options \<Rightarrow> grpc_UnaryClientInterceptor" where
  "grpc_retry_UnaryClientInterceptor = grpc_retry_ClientInterceptor"

definition grpc_retry_StreamClientInterceptor :: "lib \<Rightarrow> retry_options \<Rightarrow> grpc_StreamClientInterceptor" where
  "grpc_retry_StreamClientInterceptor = grpc_retry_ClientInterceptor"

fun attempts_of :: "'r retry_event list \<Rightarrow> ('r \<times> error option) list" where
  "attempts_of [] = []"
| "attempts_of (Attempted r # evs) = r # attempts_of evs"
| "attempts_of (Waited d # evs) = attempts_of evs"

fun waits_of :: "'r retry_event list \<Rightarrow> int list" where
  "waits_of [] = []"
| "waits_of (Attempted r # evs) = waits_of evs"
| "waits_of (Waited d # evs) = d # waits_of evs"

section \<open>The client factory\<close>

record ClientCredentialsConfig =
  CAPath :: string
  CertPath :: string
  KeyPath :: string
  ServerName :: string
  Insecure :: bool

record clientOptions =
  logger :: logger
  retryMax :: nat
  retryTimeout :: int
  creds :: ClientCredentialsConfig
  streamInterceptors :: "grpc_StreamClientInterceptor list"
  unaryInterceptors :: "grpc_UnaryClientInterceptor list"

type_synonym ClientOption = "clientOptions \<Rightarrow> clientOptions"

definition ClientLogger :: "logger \<Rightarrow> ClientOption" where
  "ClientLogger l = (\<lambda>co. co\<lparr>clientOptions.logger := l\<rparr>)"

definition ClientRetryTimeout :: "int \<Rightarrow> ClientOption" where
  "ClientRetryTimeout timeout = (\<lambda>co. co\<lparr>retryTimeout := timeout\<rparr>)"

definition ClientRetryMax :: "nat \<Rightarrow> ClientOption" where
  "ClientRetryMax mx = (\<lambda>co. co\<lparr>retryMax := mx\<rparr>)"

definition ClientCredentials :: "ClientCredentialsConfig \<Rightarrow> ClientOption" where
  "ClientCredentials cr = (\<lambda>co. co\<lparr>clientOptions.creds := cr\<rparr>)"

definition ClientCInsecure :: ClientOption where
  "ClientCInsecure = (\<lambda>co. co\<lparr>clientOptions.creds := (clientOptions.creds co)\<lparr>Insecure := True\<rparr>\<rparr>)"

definition UnaryClientInterceptors :: "grpc_UnaryClientInterceptor list \<Rightarrow> ClientOption" where
  "UnaryClientInterceptors interceptors = (\<lambda>co. co\<lparr>clientOptions.unaryInterceptors := interceptors\<rparr>)"

definition StreamClientInterceptors :: "grpc_StreamClientInterceptor list \<Rightarrow> ClientOption" where
  "StreamClientInterceptors interceptors = (\<lambda>co. co\<lparr>clientOptions.streamInterceptors := interceptors\<rparr>)"

definition applyClientOptions :: "ClientOption list \<Rightarrow> clientOptions" where
  "applyClientOptions opts =
     foldl (\<lambda>co opt. opt co)
       \<lparr>clientOptions.logger = zap_NewNop, retryMax = 0, retryTimeout = 0,
        clientOptions.creds =
          \<lparr>ClientCredentialsConfig.CAPath = [], ClientCredentialsConfig.CertPath = [],
           ClientCredentialsConfig.KeyPath = [], ClientCredentialsConfig.ServerName = [],
           Insecure = False\<rparr>,
        clientOptions.streamInterceptors = [], clientOptions.unaryInterceptors = []\<rparr>
       opts"

datatype grpc_DialOption =
    WithInsecure
  | WithTransportCredentials tls_Config
  | WithStreamInterceptor grpc_StreamClientInterceptor
  | WithUnaryInterceptor grpc_UnaryClientInterceptor

text \<open>The transport credentials among a list of dial options.\<close>

fun transport_creds_of :: "grpc_DialOption list \<Rightarrow> tls_Config list" where
  "transport_creds_of [] = []"
| "transport_creds_of (WithTransportCredentials t # ds) = t # transport_creds_of ds"
| "transport_creds_of (_ # ds) = transport_creds_of ds"

text \<open>
  Transport security of the client (\<^verbatim>\<open>NewGRPCConn\<close> up to the retry options): the
  dial options, or the error of the stage that failed. The error of reading the CA file
  is returned as it is; where \<^verbatim>\<open>AppendCertsFromPEM\<close> fails the wrapped \<^verbatim>\<open>err\<close> is nil.
\<close>

definition clientCreds ::
  "lib \<Rightarrow> clientOptions \<Rightarrow> world \<Rightarrow> (error + grpc_DialOption list) \<times> world" where
  "clientCreds L co w =
     (let options = [] in
      if Insecure (clientOptions.creds co)
      then (Inr (options @ [WithInsecure]), w)
      else
        (let clientTLSConfig =
               tls_Config_zero\<lparr>tls_Config.ServerName :=
                                 ClientCredentialsConfig.ServerName (clientOptions.creds co)\<rparr> in
         case (if ClientCredentialsConfig.CAPath (clientOptions.creds co) \<noteq> []
               then (let cPool = [] in
                     case ioutil_ReadFile (ClientCredentialsConfig.CAPath (clientOptions.creds co)) w of
                       (Inl err, w1) \<Rightarrow> (Inl err, w1)
                     | (Inr caCert, w1) \<Rightarrow>
                         (case AppendCertsFromPEM L cPool caCert of
                            (cPool', ok) \<Rightarrow>
                              if ok \<noteq> True then (Inl (Errorf ''failed to append ca crt: %w'' None), w1)
                              else (Inr (clientTLSConfig\<lparr>RootCAs := Some cPool'\<rparr>), w1)))
               else (Inr clientTLSConfig, w)) of
           (Inl e, w1) \<Rightarrow> (Inl e, w1)
         | (Inr clientTLSConfig1, w1) \<Rightarrow>
             (case (if ClientCredentialsConfig.CertPath (clientOptions.creds co) \<noteq> []
                      \<and> ClientCredentialsConfig.KeyPath (clientOptions.creds co) \<noteq> []
                    then (case tls_LoadX509KeyPair L
                                 (ClientCredentialsConfig.CertPath (clientOptions.creds co))
                                 (ClientCredentialsConfig.KeyPath (clientOptions.creds co)) w1 of
                            (Inl err, w2) \<Rightarrow> (Inl (Errorf ''failed to append ca crt: %w'' (Some err)), w2)
                          | (Inr clientCert, w2) \<Rightarrow>
                              (Inr (clientTLSConfig1\<lparr>Certificates := [clientCert]\<rparr>), w2))
                    else (Inr clientTLSConfig1, w1)) of
                (Inl e, w2) \<Rightarrow> (Inl e, w2)
              | (Inr clientTLSConfig2, w2) \<Rightarrow>
                  (Inr (options @ [WithTransportCredentials (credentials_NewTLS clientTLSConfig2)]), w2))))"

text \<open>
  \<^verbatim>\<open>retryOpts\<close>: the library's \<^verbatim>\<open>BackoffLinear\<close> of one second, the configured
  maximum and the configured timeout.
\<close>

definition retryOpts :: "lib \<Rightarrow> clientOptions \<Rightarrow> retry_options" where
  "retryOpts L co =
     \<lparr>WithBackoff = BackoffLinear L time_Second, WithMax = retryMax co,
      WithPerRetryTimeout = retryTimeout co\<rparr>"

text \<open>The four interceptor options \<^verbatim>\<open>NewGRPCConn\<close> appends, in the source's order.\<close>

definition clientInterceptorOptions :: "lib \<Rightarrow> clientOptions \<Rightarrow> grpc_DialOption list" where
  "clientInterceptorOptions L co =
     [WithStreamInterceptor (grpc_retry_StreamClientInterceptor L (retryOpts L co)),
      WithUnaryInterceptor (grpc_retry_UnaryClientInterceptor L (retryOpts L co)),
      WithUnaryInterceptor (ChainUnaryClient (clientOptions.unaryInterceptors co)),
      WithStreamInterceptor (ChainStreamClient (clientOptions.streamInterceptors co))]"

definition clientDialOptions ::
  "lib \<Rightarrow> clientOptions \<Rightarrow> world \<Rightarrow> (error + grpc_DialOption list) \<times> world" where
  "clientDialOptions L co w =
     (case clientCreds L co w of
        (Inl e, w1) \<Rightarrow> (Inl e, w1)
      | (Inr options, w1) \<Rightarrow> (Inr (options @ clientInterceptorOptions L co), w1))"

text \<open>
  \<^verbatim>\<open>NewGRPCConn\<close>; \<open>Dial\<close> is the transport's \<^verbatim>\<open>grpc.Dial\<close>, a parameter, and its
  result is returned as it is.
\<close>

definition NewGRPCConn ::
  "lib \<Rightarrow> (string \<Rightarrow> grpc_DialOption list \<Rightarrow> error + 'conn) \<Rightarrow> string \<Rightarrow> ClientOption list \<Rightarrow> world
     \<Rightarrow> (error + 'conn) \<times> world" where
  "NewGRPCConn L Dial address opts w =
     (let co = applyClientOptions opts in
      case clientDialOptions L co w of
        (Inl e, w1) \<Rightarrow> (Inl e, w1)
      | (Inr options, w1) \<Rightarrow> (Dial address options, w1))"

text \<open>
  How the transport reads the dial options (\<^verbatim>\<open>google.golang.org/grpc\<close>, not among the
  repository's files): a dial option is an assignment to its slot of the connection's
  settings, and \<^verbatim>\<open>grpc.Dial\<close> applies the options it is given in order. The settings
  have one slot for a unary interceptor and one for a stream interceptor, so of two
  \<^verbatim>\<open>WithUnaryInterceptor\<close> options the later one is the connection's unary interceptor.
\<close>

record dialOptions =
  unaryInt :: "grpc_UnaryClientInterceptor option"
  streamInt :: "grpc_StreamClientInterceptor option"
  insecure :: bool
  copts_TransportCredentials :: "tls_Config option"

fun apply_DialOption :: "dialOptions \<Rightarrow> grpc_DialOption \<Rightarrow> dialOptions" where
  "apply_DialOption d WithInsecure = d\<lparr>insecure := True\<rparr>"
| "apply_DialOption d (WithTransportCredentials t) = d\<lparr>copts_TransportCredentials := Some t\<rparr>"
| "apply_DialOption d (WithStreamInterceptor f) = d\<lparr>streamInt := Some f\<rparr>"
| "apply_DialOption d (WithUnaryInterceptor f) = d\<lparr>unaryInt := Some f\<rparr>"

definition dial_settings :: "grpc_DialOption list \<Rightarrow> dialOptions" where
  "dial_settings options =
     foldl apply_DialOption
       \<lparr>unaryInt = None, streamInt = None, insecure = False, copts_TransportCredentials = None\<rparr>
       options"

section \<open>Concrete inputs\<close>

text \<open>
  A library instance, two worlds, handlers, interceptors and invokers on which the
  theorems below are evaluated.
\<close>

definition example_lib :: lib where
  "example_lib =
     \<lparr>status_Code = (\<lambda>e. case e of None \<Rightarrow> OK | Some (StatusError c m) \<Rightarrow> c | Some _ \<Rightarrow> Unknown),
      code_String = (\<lambda>c. if c = OK then ''OK'' else if c = Internal then ''Internal'' else ''Code''),
      duration_String = (\<lambda>d. if d = 0 then ''0s'' else ''5ns''),
      error_Error = (\<lambda>e. case e of StatusError c m \<Rightarrow> m | _ \<Rightarrow> ''error''),
      parse_PEM_certs = (\<lambda>pem. if pem = [] then [] else [pem]),
      X509KeyPair = (\<lambda>certPEM keyPEM. if certPEM = [] then Inl (ParseError ''tls'') else Inr certPEM),
      BackoffLinear = (\<lambda>waitBetween attempt. waitBetween),
      is_transient = (\<lambda>e. case e of StatusError c m \<Rightarrow> c = Unavailable | _ \<Rightarrow> False)\<rparr>"

definition empty_world :: world where
  "empty_world = \<lparr>now = 0, log = [], reads = [], files = (\<lambda>p. None)\<rparr>"

definition ca_world :: world where
  "ca_world =
     \<lparr>now = 0, log = [], reads = [],
      files = (\<lambda>p. if p = ''ca.pem'' then Some ''CA CERTIFICATE'' else None)\<rparr>"

definition example_ctx :: ctx where
  "example_ctx = \<lparr>ctx_values = [(''request-id'', StrV ''r1'')], ctx_timeout = None\<rparr>"

definition example_field :: LoggerFeild where
  "example_field c = Field ''request-id'' (case map_of (ctx_values c) ''request-id'' of
                                            None \<Rightarrow> NilV | Some v \<Rightarrow> v)"

definition example_uinfo :: UnaryServerInfo where
  "example_uinfo = \<lparr>Server = NilV, UnaryServerInfo.FullMethod = ''/pkg.Svc/Get''\<rparr>"

definition example_sinfo :: StreamServerInfo where
  "example_sinfo =
     \<lparr>StreamServerInfo.FullMethod = ''/pkg.Svc/Watch'', IsClientStream = False, IsServerStream = True\<rparr>"

definition example_stream :: ServerStream where
  "example_stream = \<lparr>Context = example_ctx\<rparr>"

definition internal_uhandler :: UnaryHandler where
  "internal_uhandler c r w = (Returned (NilV, Some (StatusError Internal ''db down'')), w\<lparr>now := now w + 5\<rparr>)"

definition ok_shandler :: StreamHandler where
  "ok_shandler srv stream w = (Returned None, w\<lparr>now := now w + 5\<rparr>)"



definition ok_uhandler :: UnaryHandler where
  "ok_uhandler c r w = (Returned (r, None), w)"

text \<open>
  Interceptors that leave a mark in the log when they are entered and then continue
  the call, and interceptors that panic when they are entered.
\<close>

definition marking_unary :: "string \<Rightarrow> grpc_UnaryServerInterceptor" where
  "marking_unary name c r info handler w = handler c r (logger_Info [] name w)"

definition panicking_unary :: grpc_UnaryServerInterceptor where
  "panicking_unary c r info handler w = (Panicked (StrV ''B failed''), w)"

definition marking_stream :: "string \<Rightarrow> grpc_StreamServerInterceptor" where
  "marking_stream name srv stream info handler w = handler srv stream (logger_Info [] name w)"

definition panicking_stream :: grpc_StreamServerInterceptor where
  "panicking_stream srv stream info handler w = (Panicked (StrV ''B failed''), w)"

text \<open>An invoker that fails every attempt with \<^verbatim>\<open>Unavailable\<close> and marks each attempt in the log.\<close>

definition unavailable_invoker :: "(UnaryCall, any) invoker" where
  "unavailable_invoker c q w =
     ((NilV, Some (StatusError Unavailable ''down'')), logger_Info [] ''attempt'' w)"

definition example_call :: UnaryCall where
  "example_call = \<lparr>UnaryCall.rpc_method = ''/pkg.Svc/Get'', req = NilV\<rparr>"

text \<open>Server options with two caller-supplied interceptors of each kind; the second panics.\<close>

definition example_server_options :: "ServerOption list" where
  "example_server_options =
     [UnaryServerInterceptors [marking_unary ''A'', panicking_unary],
      StreamServerInterceptors [marking_stream ''A'', panicking_stream]]"

text \<open>A server configuration that names a CA file and neither certificate nor key.\<close>

definition ca_only_options :: "ServerOption list" where
  "ca_only_options =
     [ServerCredentials
        \<lparr>ServerCredentialsConfig.CAPath = ''ca.pem'', ServerCredentialsConfig.CertPath = [],
         ServerCredentialsConfig.KeyPath = []\<rparr>]"

text \<open>
  Client options: insecure, with paths that name no file of either world; and a client
  allowed three attempts.
\<close>

definition insecure_client_options :: "ClientOption list" where
  "insecure_client_options =
     [ClientCredentials
        \<lparr>ClientCredentialsConfig.CAPath = ''missing-ca.pem'',
         ClientCredentialsConfig.CertPath = ''missing-cert.pem'',
         ClientCredentialsConfig.KeyPath = ''missing-key.pem'',
         ClientCredentialsConfig.ServerName = ''example.org'', Insecure = False\<rparr>,
      ClientCInsecure]"

definition retrying_client_options :: "ClientOption list" where
  "retrying_client_options = [ClientCInsecure, ClientRetryMax 3]"

definition example_Dial :: "string \<Rightarrow> grpc_DialOption list \<Rightarrow> error + (string \<times> grpc_DialOption list)" where
  "example_Dial address options = Inr (address, options)"

section \<open>Properties of the logging interceptors\<close>

lemma applyLoggerFeilds_acc:
  "foldl (\<lambda>fields ls. fields @ [ls c]) acc lfs = acc @ map (\<lambda>ls. ls c) lfs"
  by (induction lfs arbitrary: acc) simp_all

lemma applyLoggerFeilds_map: "applyLoggerFeilds c lfs = map (\<lambda>ls. ls c) lfs"
  by (simp add: applyLoggerFeilds_def applyLoggerFeilds_acc)

text \<open>
  C10. The logging interceptors hand the handler's outcome to the caller as it is:
  the response and error when the handler returns, the panic when it panics.
\<close>

theorem logging_returns_handler_result:
  "fst (UnaryServerInterceptor L lg opts c rq uinfo uhandler w) = fst (uhandler c rq w)
   \<and> fst (StreamServerInterceptor L lg opts srv stream sinfo shandler w)
       = fst (shandler srv stream w)"
  by (simp add: UnaryServerInterceptor_def StreamServerInterceptor_def Let_def
      split: prod.split outcome.split)

text \<open>
  C4. When the handler returns, the logging interceptor (unary or streaming) emits
  exactly one record after the handler's own; its severity is Error when the status code
  of the returned error is Internal or Unavailable and Info for every other code,
  success included.
\<close>

theorem logging_severity:
  assumes "uhandler c rq w = (Returned (resp, err), wu)"
      and "shandler srv stream w = (Returned serr, ws)"
  shows "log (snd (UnaryServerInterceptor L lg opts c rq uinfo uhandler w))
           = log wu @
             [\<lparr>level = (if status_Code L err = Internal \<or> status_Code L err = Unavailable
                        then ErrorLevel else InfoLevel),
               message = log_msg L (now w) (now wu) (UnaryServerInfo.FullMethod uinfo)
                           (status_Code L err) err,
               entry_fields = lg @ map (\<lambda>ls. ls c) opts\<rparr>]
         \<and> log (snd (StreamServerInterceptor L lg opts srv stream sinfo shandler w))
           = log ws @
             [\<lparr>level = (if status_Code L serr = Internal \<or> status_Code L serr = Unavailable
                        then ErrorLevel else InfoLevel),
               message = log_msg L (now w) (now ws) (StreamServerInfo.FullMethod sinfo)
                           (status_Code L serr) serr,
               entry_fields = lg @ map (\<lambda>ls. ls (Context stream)) opts\<rparr>]"
  using assms
  by (simp add: UnaryServerInterceptor_def StreamServerInterceptor_def Let_def
      applyLoggerFeilds_map logger_Error_def logger_Info_def logger_write_def logger_With_def)

theorem logging_severity_witness:
  "map level (log (snd (UnaryServerInterceptor example_lib [] [example_field] example_ctx NilV
                          example_uinfo internal_uhandler empty_world))) = [ErrorLevel]
   \<and> map level (log (snd (StreamServerInterceptor example_lib [] [example_field] NilV
                            example_stream example_sinfo ok_shandler empty_world))) = [InfoLevel]"
proof -
  have u: "internal_uhandler example_ctx NilV empty_world
             = (Returned (NilV, Some (StatusError Internal ''db down'')), empty_world\<lparr>now := 5\<rparr>)"
    by (simp add: internal_uhandler_def empty_world_def)
  have s: "ok_shandler NilV example_stream empty_world = (Returned None, empty_world\<lparr>now := 5\<rparr>)"
    by (simp add: ok_shandler_def empty_world_def)
  show ?thesis
    using logging_severity [where uhandler = internal_uhandler and c = example_ctx and rq = NilV
        and w = empty_world and shandler = ok_shandler and srv = NilV and stream = example_stream
        and L = example_lib and lg = "[]" and opts = "[example_field]"
        and uinfo = example_uinfo and sinfo = example_sinfo, OF u s]
    by (simp add: example_lib_def empty_world_def)
qed

section \<open>Properties of the server factory\<close>



lemma recovery_unary_never_panics:
  "fst (grpc_recovery_UnaryServerInterceptor (recoveryFn so) c rq info handler w) \<noteq> Panicked v"
  by (simp add: grpc_recovery_UnaryServerInterceptor_def recoveryFn_def
      split: prod.split outcome.split)

lemma recovery_stream_never_panics:
  "fst (grpc_recovery_StreamServerInterceptor (recoveryFn so) srv stream info handler w) \<noteq> Panicked v"
  by (simp add: grpc_recovery_StreamServerInterceptor_def recoveryFn_def
      split: prod.split outcome.split)

lemma serverCreds_shape:
  assumes "serverCreds L so w = (Inr opts, wc)"
  shows "opts = [] \<or> (\<exists>t. opts = [Creds t])"
  using assms
  by (auto simp: serverCreds_def Let_def split: if_splits prod.splits sum.splits)

lemma serverCreds_no_interceptors:
  assumes "serverCreds L so w = (Inr opts, wc)"
  shows "unary_of opts = [] \<and> stream_of opts = []"
  using serverCreds_shape [OF assms] by auto

lemma unary_of_append: "unary_of (xs @ ys) = unary_of xs @ unary_of ys"
  by (induction xs rule: unary_of.induct) simp_all

lemma stream_of_append: "stream_of (xs @ ys) = stream_of xs @ stream_of ys"
  by (induction xs rule: stream_of.induct) simp_all

lemma NewGRPCServer_Inr:
  assumes "fst (NewGRPCServer L options w) = Inr srv"
  shows "unary_of (server_opts srv)
           = [ChainUnaryServer (serverUnaryInterceptors (applyServerOptions options))]
       \<and> stream_of (server_opts srv)
           = [ChainStreamServer (serverStreamInterceptors (applyServerOptions options))]"
proof (cases "serverCreds L (applyServerOptions options) w")
  case (Pair r wc)
  show ?thesis
  proof (cases r)
    case (Inl e)
    with Pair assms show ?thesis by (simp add: NewGRPCServer_def Let_def)
  next
    case (Inr opts)
    with Pair have sc: "serverCreds L (applyServerOptions options) w = (Inr opts, wc)" by simp
    from sc assms have srv: "srv = grpc_NewServer
        (opts @ [UnaryInterceptor (ChainUnaryServer (serverUnaryInterceptors (applyServerOptions options))),
                 StreamInterceptor (ChainStreamServer (serverStreamInterceptors (applyServerOptions options)))])"
      by (auto simp: NewGRPCServer_def Let_def)
    from serverCreds_no_interceptors [OF sc] srv show ?thesis
      by (simp add: unary_of_append stream_of_append)
  qed
qed

text \<open>
  C3. A server that \<^verbatim>\<open>NewGRPCServer\<close> builds from the caller's interceptors \<open>[A, B]\<close>
  has one unary and one stream interceptor: the recovery interceptor around \<open>A\<close> around
  \<open>B\<close> around the handler. So \<open>B\<close> is entered only from inside \<open>A\<close>, and no panic,
  wherever it is raised inside the recovery layer, leaves the composed interceptor.
\<close>

theorem server_chain_recovery_outermost:
  assumes "serverOptions.unaryInterceptors (applyServerOptions options) = [A, B]"
      and "serverOptions.streamInterceptors (applyServerOptions options) = [SA, SB]"
      and "fst (NewGRPCServer L options w) = Inr srv"
  shows "unary_of (server_opts srv) =
           [\<lambda>c rq info handler.
              grpc_recovery_UnaryServerInterceptor (recoveryFn (applyServerOptions options)) c rq info
                (\<lambda>ca ra. A ca ra info (\<lambda>cb rb. B cb rb info handler))]
       \<and> stream_of (server_opts srv) =
           [\<lambda>sv stream info handler.
              grpc_recovery_StreamServerInterceptor (recoveryFn (applyServerOptions options)) sv stream info
                (\<lambda>sa ta. SA sa ta info (\<lambda>sb tb. SB sb tb info handler))]
       \<and> (\<forall>c rq info handler wc v.
             fst (grpc_recovery_UnaryServerInterceptor (recoveryFn (applyServerOptions options)) c rq info
                    (\<lambda>ca ra. A ca ra info (\<lambda>cb rb. B cb rb info handler)) wc) \<noteq> Panicked v)
       \<and> (\<forall>sv stream info handler wc v.
             fst (grpc_recovery_StreamServerInterceptor (recoveryFn (applyServerOptions options)) sv stream info
                    (\<lambda>sa ta. SA sa ta info (\<lambda>sb tb. SB sb tb info handler)) wc) \<noteq> Panicked v)"
proof -
  from NewGRPCServer_Inr [OF assms(3)] assms(1,2)
  show ?thesis
    by (simp add: serverUnaryInterceptors_def serverStreamInterceptors_def
        recovery_unary_never_panics recovery_stream_never_panics)
qed

lemma example_server_built:
  "NewGRPCServer example_lib example_server_options empty_world
     = (Inr (grpc_NewServer
          [UnaryInterceptor (ChainUnaryServer (serverUnaryInterceptors (applyServerOptions example_server_options))),
           StreamInterceptor (ChainStreamServer (serverStreamInterceptors (applyServerOptions example_server_options)))]),
        empty_world\<lparr>log := [\<lparr>level = InfoLevel, message = ''No TLS keys, insecure mode'', entry_fields = []\<rparr>]\<rparr>)"
  by (simp add: NewGRPCServer_def serverCreds_def example_server_options_def applyServerOptions_def
      UnaryServerInterceptors_def StreamServerInterceptors_def Let_def logger_Info_def
      logger_write_def zap_NewNop_def empty_world_def)

theorem server_chain_recovery_outermost_witness:
  "\<exists>srv. fst (NewGRPCServer example_lib example_server_options empty_world) = Inr srv
     \<and> map (\<lambda>U. U example_ctx NilV example_uinfo ok_uhandler empty_world) (unary_of (server_opts srv))
         = [(Returned (NilV, None),
             empty_world\<lparr>log :=
               [\<lparr>level = InfoLevel, message = ''A'', entry_fields = []\<rparr>,
                \<lparr>level = ErrorLevel, message = ''recover unkown execption'',
                 entry_fields = [Field ''err'' (StrV ''B failed'')]\<rparr>]\<rparr>)]
     \<and> map (\<lambda>S. fst (S NilV example_stream example_sinfo ok_shandler empty_world))
           (stream_of (server_opts srv))
         = [Returned None]"
proof -
  obtain srv where srv: "fst (NewGRPCServer example_lib example_server_options empty_world) = Inr srv"
    by (simp add: example_server_built)
  have a: "serverOptions.unaryInterceptors (applyServerOptions example_server_options)
             = [marking_unary ''A'', panicking_unary]"
    by (simp add: example_server_options_def applyServerOptions_def UnaryServerInterceptors_def
        StreamServerInterceptors_def)
  have b: "serverOptions.streamInterceptors (applyServerOptions example_server_options)
             = [marking_stream ''A'', panicking_stream]"
    by (simp add: example_server_options_def applyServerOptions_def UnaryServerInterceptors_def
        StreamServerInterceptors_def)
  have lg: "serverOptions.logger (applyServerOptions example_server_options) = []"
    by (simp add: example_server_options_def applyServerOptions_def UnaryServerInterceptors_def
        StreamServerInterceptors_def zap_NewNop_def)
  show ?thesis
    using server_chain_recovery_outermost [OF a b srv] srv
    by (simp add: grpc_recovery_UnaryServerInterceptor_def grpc_recovery_StreamServerInterceptor_def
        recoveryFn_def marking_unary_def panicking_unary_def marking_stream_def panicking_stream_def
        logger_Info_def logger_Error_def logger_write_def logger_With_def lg empty_world_def)
qed

text \<open>
  C6 (as amended). When the CA, certificate and key paths of a server configuration are
  all empty, \<^verbatim>\<open>NewGRPCServer\<close> returns a server and no error, the server has no
  transport credentials (its options are the two interceptors only), no file is read,
  and exactly one notice is logged, at info level.
\<close>

theorem server_without_tls_material:
  assumes "ServerCredentialsConfig.CAPath (serverOptions.creds (applyServerOptions options)) = []"
      and "ServerCredentialsConfig.CertPath (serverOptions.creds (applyServerOptions options)) = []"
      and "ServerCredentialsConfig.KeyPath (serverOptions.creds (applyServerOptions options)) = []"
  shows "NewGRPCServer L options w
           = (Inr (grpc_NewServer
                [UnaryInterceptor
                   (ChainUnaryServer (serverUnaryInterceptors (applyServerOptions options))),
                 StreamInterceptor
                   (ChainStreamServer (serverStreamInterceptors (applyServerOptions options)))]),
              w\<lparr>log := log w @
                 [\<lparr>level = InfoLevel, message = ''No TLS keys, insecure mode'',
                   entry_fields = serverOptions.logger (applyServerOptions options)\<rparr>]\<rparr>)
       \<and> creds_of (server_opts (grpc_NewServer
                [UnaryInterceptor
                   (ChainUnaryServer (serverUnaryInterceptors (applyServerOptions options))),
                 StreamInterceptor
                   (ChainStreamServer (serverStreamInterceptors (applyServerOptions options)))])) = []"
  using assms
  by (simp add: NewGRPCServer_def serverCreds_def Let_def logger_Info_def logger_write_def)

theorem server_without_tls_material_witness:
  "fst (NewGRPCServer example_lib example_server_options empty_world)
     = Inr (grpc_NewServer
          [UnaryInterceptor
             (ChainUnaryServer (serverUnaryInterceptors (applyServerOptions example_server_options))),
           StreamInterceptor
             (ChainStreamServer (serverStreamInterceptors (applyServerOptions example_server_options)))])
   \<and> log (snd (NewGRPCServer example_lib example_server_options empty_world))
     = [\<lparr>level = InfoLevel, message = ''No TLS keys, insecure mode'', entry_fields = []\<rparr>]
   \<and> reads (snd (NewGRPCServer example_lib example_server_options empty_world)) = []"
proof -
  have c: "serverOptions.creds (applyServerOptions example_server_options)
             = \<lparr>ServerCredentialsConfig.CAPath = [], ServerCredentialsConfig.CertPath = [],
                ServerCredentialsConfig.KeyPath = []\<rparr>"
    by (simp add: example_server_options_def applyServerOptions_def UnaryServerInterceptors_def
        StreamServerInterceptors_def)
  have lg: "serverOptions.logger (applyServerOptions example_server_options) = []"
    by (simp add: example_server_options_def applyServerOptions_def UnaryServerInterceptors_def
        StreamServerInterceptors_def zap_NewNop_def)
  show ?thesis
    using server_without_tls_material [of example_server_options example_lib empty_world]
    by (simp add: c lg empty_world_def)
qed

text \<open>
  C6 as stated fails on the default configuration: the one record logged has level
  Info, and no record of level Warn is logged.
\<close>

theorem server_without_tls_notice_is_info:
  "ServerCredentialsConfig.CAPath (serverOptions.creds (applyServerOptions [])) = []
   \<and> ServerCredentialsConfig.CertPath (serverOptions.creds (applyServerOptions [])) = []
   \<and> ServerCredentialsConfig.KeyPath (serverOptions.creds (applyServerOptions [])) = []
   \<and> log (snd (NewGRPCServer example_lib [] empty_world))
       = [\<lparr>level = InfoLevel, message = ''No TLS keys, insecure mode'', entry_fields = []\<rparr>]
   \<and> WarnLevel \<notin> set (map level (log (snd (NewGRPCServer example_lib [] empty_world))))"
  by (simp add: NewGRPCServer_def serverCreds_def applyServerOptions_def Let_def logger_Info_def
      logger_write_def zap_NewNop_def empty_world_def)

lemma ReadFile_empty_path: "fst (ioutil_ReadFile [] w) = Inl (PathError [])"
  by (simp add: ioutil_ReadFile_def)

lemma LoadX509KeyPair_missing:
  assumes "certFile = [] \<or> keyFile = []"
  shows "\<exists>p. fst (tls_LoadX509KeyPair L certFile keyFile w) = Inl (PathError p)"
  using assms
  by (auto simp: tls_LoadX509KeyPair_def ioutil_ReadFile_def split: prod.splits sum.splits option.splits)

text \<open>
  C7 (as amended). With a non-empty CA path and an empty certificate or key path,
  \<^verbatim>\<open>NewGRPCServer\<close> fails and returns no server. The stages run in the source's order,
  so the error is that of the first stage to fail: reading the CA file
  (\<^verbatim>\<open>CAUnreadable\<close>), parsing it (\<^verbatim>\<open>CAInvalid\<close>), and only then loading the key pair
  (\<^verbatim>\<open>KeyPairInvalid\<close>).
\<close>

theorem server_ca_without_key_pair_fails:
  assumes "ServerCredentialsConfig.CAPath (serverOptions.creds (applyServerOptions options)) \<noteq> []"
      and "ServerCredentialsConfig.CertPath (serverOptions.creds (applyServerOptions options)) = []
           \<or> ServerCredentialsConfig.KeyPath (serverOptions.creds (applyServerOptions options)) = []"
  shows "\<exists>e. fst (NewGRPCServer L options w) = Inl e
           \<and> credentialErrorKind e =
               Some (case files w (ServerCredentialsConfig.CAPath
                                     (serverOptions.creds (applyServerOptions options))) of
                       None \<Rightarrow> CAUnreadable
                     | Some pem \<Rightarrow> if parse_PEM_certs L pem = [] then CAInvalid else KeyPairInvalid)"
proof -
  let ?so = "applyServerOptions options"
  let ?ca = "ServerCredentialsConfig.CAPath (serverOptions.creds ?so)"
  let ?w1 = "logger_Info (serverOptions.logger ?so) ''enable mutual credentials in grpc server'' w"
  have files1: "files ?w1 = files w"
    by (simp add: logger_Info_def logger_write_def)
  show ?thesis
  proof (cases "files w ?ca")
    case None
    with assms(1) files1 show ?thesis
      by (simp add: NewGRPCServer_def serverCreds_def Let_def ioutil_ReadFile_def
          credentialErrorKind_def)
  next
    case (Some pem)
    show ?thesis
    proof (cases "parse_PEM_certs L pem = []")
      case True
      with Some assms(1) files1 show ?thesis
        by (simp add: NewGRPCServer_def serverCreds_def Let_def ioutil_ReadFile_def
            AppendCertsFromPEM_def credentialErrorKind_def)
    next
      case False
      let ?w2 = "?w1\<lparr>reads := reads ?w1 @ [?ca]\<rparr>"
      from LoadX509KeyPair_missing [OF assms(2), of L ?w2]
      obtain p where p: "fst (tls_LoadX509KeyPair L
            (ServerCredentialsConfig.CertPath (serverOptions.creds ?so))
            (ServerCredentialsConfig.KeyPath (serverOptions.creds ?so)) ?w2) = Inl (PathError p)"
        by blast
      from False Some assms(1) files1 p show ?thesis
        by (auto simp: NewGRPCServer_def serverCreds_def Let_def ioutil_ReadFile_def
            AppendCertsFromPEM_def credentialErrorKind_def split: prod.splits)
    qed
  qed
qed

lemma ca_only_creds:
  "serverOptions.creds (applyServerOptions ca_only_options)
     = \<lparr>ServerCredentialsConfig.CAPath = ''ca.pem'', ServerCredentialsConfig.CertPath = [],
        ServerCredentialsConfig.KeyPath = []\<rparr>"
  by (simp add: ca_only_options_def applyServerOptions_def ServerCredentials_def)

theorem server_ca_without_key_pair_fails_witness:
  "\<exists>e. fst (NewGRPCServer example_lib ca_only_options ca_world) = Inl e
        \<and> credentialErrorKind e = Some KeyPairInvalid"
  using server_ca_without_key_pair_fails [of ca_only_options example_lib ca_world]
  by (simp add: ca_only_creds ca_world_def example_lib_def)

text \<open>
  C7 as stated fails where the CA file cannot be read: with a CA path, no certificate
  and no key, and no file \<^verbatim>\<open>ca.pem\<close>, the error is the wrapped read failure
  (\<^verbatim>\<open>CAUnreadable\<close>), not \<^verbatim>\<open>KeyPairInvalid\<close>.
\<close>

theorem server_ca_unreadable_not_KeyPairInvalid:
  "ServerCredentialsConfig.CAPath (serverOptions.creds (applyServerOptions ca_only_options)) = ''ca.pem''
   \<and> ServerCredentialsConfig.CertPath (serverOptions.creds (applyServerOptions ca_only_options)) = []
   \<and> fst (NewGRPCServer example_lib ca_only_options empty_world)
       = Inl (Errorf ''failed to read ac cert: %w'' (Some (PathError ''ca.pem'')))
   \<and> credentialErrorKind (Errorf ''failed to read ac cert: %w'' (Some (PathError ''ca.pem'')))
       = Some CAUnreadable
   \<and> credentialErrorKind (Errorf ''failed to read ac cert: %w'' (Some (PathError ''ca.pem'')))
       \<noteq> Some KeyPairInvalid"
  by (simp add: ca_only_creds NewGRPCServer_def serverCreds_def Let_def ioutil_ReadFile_def
      logger_Info_def logger_write_def empty_world_def credentialErrorKind_def)

section \<open>Properties of the client factory\<close>

text \<open>
  C8. With \<^verbatim>\<open>insecure = true\<close>, \<^verbatim>\<open>NewGRPCConn\<close> hands the world to the transport as
  it found it (no path is read), and dials with \<^verbatim>\<open>WithInsecure\<close> and the four
  interceptor options only: no TLS configuration is among the dial options, and nothing
  in them depends on the CA, certificate, key or server-name fields.
\<close>

theorem insecure_client_reads_nothing:
  assumes "Insecure (clientOptions.creds (applyClientOptions opts))"
  shows "NewGRPCConn L Dial address opts w
           = (Dial address
                [WithInsecure,
                 WithStreamInterceptor
                   (grpc_retry_StreamClientInterceptor L
                      \<lparr>WithBackoff = BackoffLinear L time_Second,
                       WithMax = retryMax (applyClientOptions opts),
                       WithPerRetryTimeout = retryTimeout (applyClientOptions opts)\<rparr>),
                 WithUnaryInterceptor
                   (grpc_retry_UnaryClientInterceptor L
                      \<lparr>WithBackoff = BackoffLinear L time_Second,
                       WithMax = retryMax (applyClientOptions opts),
                       WithPerRetryTimeout = retryTimeout (applyClientOptions opts)\<rparr>),
                 WithUnaryInterceptor
                   (ChainUnaryClient (clientOptions.unaryInterceptors (applyClientOptions opts))),
                 WithStreamInterceptor
                   (ChainStreamClient (clientOptions.streamInterceptors (applyClientOptions opts)))],
              w)
       \<and> reads (snd (NewGRPCConn L Dial address opts w)) = reads w
       \<and> (\<exists>ds. fst (clientDialOptions L (applyClientOptions opts) w) = Inr ds
                \<and> transport_creds_of ds = [])"
  using assms
  by (simp add: NewGRPCConn_def clientDialOptions_def clientCreds_def clientInterceptorOptions_def
      retryOpts_def Let_def)

theorem insecure_client_reads_nothing_witness:
  "reads (snd (NewGRPCConn example_lib example_Dial ''localhost:443'' insecure_client_options empty_world)) = []
   \<and> (\<exists>ds. fst (NewGRPCConn example_lib example_Dial ''localhost:443'' insecure_client_options empty_world)
              = Inr (''localhost:443'', ds)
            \<and> transport_creds_of ds = [])"
proof -
  have i: "Insecure (clientOptions.creds (applyClientOptions insecure_client_options))"
    by (simp add: insecure_client_options_def applyClientOptions_def ClientCredentials_def
        ClientCInsecure_def)
  show ?thesis
    using insecure_client_reads_nothing [OF i, of example_lib example_Dial "''localhost:443''" empty_world]
    by (simp add: example_Dial_def empty_world_def)
qed

section \<open>Properties of the retry policy\<close>

text \<open>
  The waits of a run of the retry loop: one between two consecutive attempts and no
  other, the wait after attempt number \<open>j\<close> being what the configured backoff function
  gives for \<open>j\<close>.
\<close>

lemma retry_from_waits:
  "waits_of (snd (retry_from L ro invoker c q i k w))
     = map (WithBackoff ro) [i ..< i + length (attempts_of (snd (retry_from L ro invoker c q i k w))) - 1]"
proof (induction k arbitrary: i w)
  case 0
  show ?case by (simp split: prod.split)
next
  case (Suc k)
  obtain res w1 where inv: "invoker (perCallContext ro c) q w = (res, w1)"
    by (cases "invoker (perCallContext ro c) q w")
  show ?case
  proof (cases "snd res")
    case None
    with inv show ?thesis by simp
  next
    case (Some e)
    show ?thesis
    proof (cases "is_transient L e")
      case False
      with inv Some show ?thesis by simp
    next
      case True
      let ?rest = "retry_from L ro invoker c q (Suc i) k (sleep (WithBackoff ro i) w1)"
      obtain out evs where r: "?rest = (out, evs)" by (cases ?rest)
      from Suc.IH [of "Suc i" "sleep (WithBackoff ro i) w1"] r
      have ih: "waits_of evs = map (WithBackoff ro) [Suc i ..< Suc i + length (attempts_of evs) - 1]"
        by simp
      have pos: "0 < length (attempts_of evs)"
        using r by (cases k) (auto split: prod.splits option.splits if_splits)
      from inv Some True r ih pos show ?thesis
        by (simp add: upt_conv_Cons)
    qed
  qed
qed

lemma retry_from_attempts_nonempty:
  "attempts_of (snd (retry_from L ro invoker c q i k w)) \<noteq> []"
  by (cases k) (auto split: prod.splits option.splits)

lemma retry_from_result_last:
  "fst (fst (retry_from L ro invoker c q i k w))
     = last (attempts_of (snd (retry_from L ro invoker c q i k w)))"
proof (induction k arbitrary: i w)
  case 0
  show ?case by (simp split: prod.split)
next
  case (Suc k)
  obtain res w1 where inv: "invoker (perCallContext ro c) q w = (res, w1)"
    by (cases "invoker (perCallContext ro c) q w")
  show ?case
  proof (cases "snd res")
    case None
    with inv show ?thesis by simp
  next
    case (Some e)
    show ?thesis
    proof (cases "is_transient L e")
      case False
      with inv Some show ?thesis by simp
    next
      case True
      let ?rest = "retry_from L ro invoker c q (Suc i) k (sleep (WithBackoff ro i) w1)"
      obtain out evs where r: "?rest = (out, evs)" by (cases ?rest)
      from Suc.IH [of "Suc i" "sleep (WithBackoff ro i) w1"] r
      have ih: "fst out = last (attempts_of evs)" by simp
      from retry_from_attempts_nonempty [of L ro invoker c q "Suc i" k "sleep (WithBackoff ro i) w1"] r
      have ne: "attempts_of evs \<noteq> []" by simp
      from inv Some True r ih ne show ?thesis by simp
    qed
  qed
qed

lemma retry_from_persistent:
  assumes "\<forall>c' w'. \<exists>r e. fst (invoker c' q w') = (r, Some e) \<and> is_transient L e"
  shows "length (attempts_of (snd (retry_from L ro invoker c q i k w))) = Suc k"
proof (induction k arbitrary: i w)
  case 0
  show ?case by (simp split: prod.split)
next
  case (Suc k)
  obtain res w1 where inv: "invoker (perCallContext ro c) q w = (res, w1)"
    by (cases "invoker (perCallContext ro c) q w")
  from assms obtain r e where "fst (invoker (perCallContext ro c) q w) = (r, Some e)"
    and tr: "is_transient L e" by blast
  with inv have res: "snd res = Some e" by simp
  let ?rest = "retry_from L ro invoker c q (Suc i) k (sleep (WithBackoff ro i) w1)"
  obtain out evs where rr: "?rest = (out, evs)" by (cases ?rest)
  from Suc.IH [of "Suc i" "sleep (WithBackoff ro i) w1"] rr
  have "length (attempts_of evs) = Suc k" by simp
  with inv res tr rr show ?case by simp
qed

text \<open>
  C5 (as amended). When every attempt of a call fails with a failure the transport
  classifies as transient, the retry interceptor configured by \<^verbatim>\<open>NewGRPCConn\<close> with
  \<^verbatim>\<open>max_attempts = N\<close> makes exactly \<open>N\<close> attempts when \<open>N\<close> is positive and exactly
  one when \<open>N = 0\<close>, and returns what the last attempt returned, unchanged. (The unary
  and the stream retry interceptor are both \<open>grpc_retry_ClientInterceptor\<close>.)
\<close>

theorem retry_attempts_when_persistently_failing:
  assumes "\<forall>c' w'. \<exists>r e. fst (invoker c' q w') = (r, Some e) \<and> is_transient L e"
  shows "length (attempts_of (snd (retry_run L (retryOpts L co) invoker c q w)))
           = (if retryMax co = 0 then 1 else retryMax co)
       \<and> grpc_retry_ClientInterceptor L (retryOpts L co) c q invoker w
           = fst (retry_run L (retryOpts L co) invoker c q w)
       \<and> fst (grpc_retry_ClientInterceptor L (retryOpts L co) c q invoker w)
           = last (attempts_of (snd (retry_run L (retryOpts L co) invoker c q w)))"
  using retry_from_persistent [where invoker = invoker and q = q and L = L, OF assms]
  by (simp add: retry_run_def grpc_retry_ClientInterceptor_def retry_from_result_last
      total_attempts_def retryOpts_def)

lemma unavailable_invoker_persistent:
  "\<forall>c' w'. \<exists>r e. fst (unavailable_invoker c' example_call w') = (r, Some e)
       \<and> is_transient example_lib e"
  by (simp add: unavailable_invoker_def example_lib_def)

lemma retrying_client_retryMax: "retryMax (applyClientOptions retrying_client_options) = 3"
  by (simp add: retrying_client_options_def applyClientOptions_def ClientCInsecure_def
      ClientRetryMax_def)

theorem retry_attempts_when_persistently_failing_witness:
  "length (attempts_of (snd (retry_run example_lib (retryOpts example_lib (applyClientOptions retrying_client_options))
             unavailable_invoker example_ctx example_call empty_world))) = 3
   \<and> fst (grpc_retry_ClientInterceptor example_lib (retryOpts example_lib (applyClientOptions retrying_client_options))
            example_ctx example_call unavailable_invoker empty_world)
       = (NilV, Some (StatusError Unavailable ''down''))"
proof -
  have l: "last (attempts_of (snd (retry_run example_lib (retryOpts example_lib (applyClientOptions retrying_client_options))
             unavailable_invoker example_ctx example_call empty_world)))
           = (NilV, Some (StatusError Unavailable ''down''))"
    by (simp add: retry_run_def total_attempts_def retryOpts_def retrying_client_retryMax
        numeral_3_eq_3 unavailable_invoker_def example_lib_def)
  note t = retry_attempts_when_persistently_failing [where invoker = unavailable_invoker
        and q = example_call and L = example_lib and co = "applyClientOptions retrying_client_options"
        and c = example_ctx and w = empty_world, OF unavailable_invoker_persistent]
  from t have n: "length (attempts_of (snd (retry_run example_lib
             (retryOpts example_lib (applyClientOptions retrying_client_options))
             unavailable_invoker example_ctx example_call empty_world))) = 3"
    by (simp add: retrying_client_retryMax)
  from t have r: "fst (grpc_retry_ClientInterceptor example_lib
             (retryOpts example_lib (applyClientOptions retrying_client_options))
             example_ctx example_call unavailable_invoker empty_world)
         = last (attempts_of (snd (retry_run example_lib
             (retryOpts example_lib (applyClientOptions retrying_client_options))
             unavailable_invoker example_ctx example_call empty_world)))"
    by blast
  from n r l show ?thesis by simp
qed

text \<open>
  C5 as stated fails at \<^verbatim>\<open>max_attempts = 1\<close>: a call that always fails with
  \<^verbatim>\<open>Unavailable\<close> is attempted once, not twice.
\<close>

theorem retry_max_one_single_attempt:
  "retryMax (applyClientOptions [ClientRetryMax 1]) = 1
   \<and> length (attempts_of (snd (retry_run example_lib (retryOpts example_lib (applyClientOptions [ClientRetryMax 1]))
               unavailable_invoker example_ctx example_call empty_world))) = 1
   \<and> map message (log (snd (grpc_retry_UnaryClientInterceptor example_lib
                               (retryOpts example_lib (applyClientOptions [ClientRetryMax 1]))
                               example_ctx example_call unavailable_invoker empty_world)))
       = [''attempt'']"
  by (simp add: retry_run_def total_attempts_def retryOpts_def applyClientOptions_def
      ClientRetryMax_def unavailable_invoker_def grpc_retry_UnaryClientInterceptor_def
      grpc_retry_ClientInterceptor_def logger_Info_def logger_write_def empty_world_def)

section \<open>The interceptors of a dialled connection\<close>

lemma dial_settings_client:
  "unaryInt (dial_settings (pre @ clientInterceptorOptions L co))
     = Some (ChainUnaryClient (clientOptions.unaryInterceptors co))
   \<and> streamInt (dial_settings (pre @ clientInterceptorOptions L co))
     = Some (ChainStreamClient (clientOptions.streamInterceptors co))"
  by (simp add: dial_settings_def clientInterceptorOptions_def)

text \<open>
  C1 (divergence). \<^verbatim>\<open>NewGRPCConn\<close> passes the retry interceptor and the chain of the
  caller's interceptors as separate \<^verbatim>\<open>WithUnaryInterceptor\<close> (and
  \<^verbatim>\<open>WithStreamInterceptor\<close>) options, the chain last; the server factory, by
  contrast, puts its built-in interceptor at the head of one chain. The connection's
  unary interceptor is therefore the caller's chain alone. For a client allowed three
  attempts and a call that always fails with \<^verbatim>\<open>Unavailable\<close>: through the connection's
  interceptor the call is attempted once; through the retry interceptor it would be
  attempted three times.
\<close>

theorem client_retry_interceptor_replaced:
  "(case fst (clientDialOptions example_lib (applyClientOptions retrying_client_options) empty_world) of
      Inl e \<Rightarrow> False
    | Inr ds \<Rightarrow>
        (case unaryInt (dial_settings ds) of
           None \<Rightarrow> False
         | Some i \<Rightarrow>
             map message (log (snd (i example_ctx example_call unavailable_invoker empty_world)))
               = [''attempt'']))
   \<and> map message (log (snd (grpc_retry_UnaryClientInterceptor example_lib
                               (retryOpts example_lib (applyClientOptions retrying_client_options))
                               example_ctx example_call unavailable_invoker empty_world)))
       = [''attempt'', ''attempt'', ''attempt'']"
proof -
  have i: "Insecure (clientOptions.creds (applyClientOptions retrying_client_options))"
    by (simp add: retrying_client_options_def applyClientOptions_def ClientCInsecure_def
        ClientRetryMax_def)
  have u: "clientOptions.unaryInterceptors (applyClientOptions retrying_client_options) = []"
    by (simp add: retrying_client_options_def applyClientOptions_def ClientCInsecure_def
        ClientRetryMax_def)
  have ds: "fst (clientDialOptions example_lib (applyClientOptions retrying_client_options) empty_world)
              = Inr ([WithInsecure] @ clientInterceptorOptions example_lib
                                        (applyClientOptions retrying_client_options))"
    using i by (simp add: clientDialOptions_def clientCreds_def Let_def)
  have a: "map message (log (snd (ChainUnaryClient [] example_ctx example_call unavailable_invoker
                                    empty_world))) = [''attempt'']"
    by (simp add: ChainUnaryClient_def unavailable_invoker_def logger_Info_def logger_write_def
        empty_world_def)
  have b: "map message (log (snd (grpc_retry_UnaryClientInterceptor example_lib
                               (retryOpts example_lib (applyClientOptions retrying_client_options))
                               example_ctx example_call unavailable_invoker empty_world)))
       = [''attempt'', ''attempt'', ''attempt'']"
    by (simp add: retry_run_def total_attempts_def retryOpts_def retrying_client_retryMax
        numeral_3_eq_3 unavailable_invoker_def example_lib_def grpc_retry_UnaryClientInterceptor_def
        grpc_retry_ClientInterceptor_def logger_Info_def logger_write_def sleep_def empty_world_def)
  show ?thesis
    using dial_settings_client [of "[WithInsecure]" example_lib
        "applyClientOptions retrying_client_options"]
    by (simp add: ds u a b)
qed

end
